theory Spec2Isabelle
  imports Complex_Main
begin

section \<open>The resource graph of \<open>src/lib/cdk-stack.ts\<close>\<close>

text \<open>
  The repository is one class, \<open>BedrockVoiceKnowledgeStack\<close>, whose constructor declares
  a bucket, two IAM roles with their policy statements, a vector knowledge base, an S3
  data source, a Lambda layer, two Lambda functions, a REST API with two POST routes and
  four stack outputs. The constructor is embedded as a state-passing program over the
  stack's construct tree: every \<open>new X(this, id, props)\<close> registers one node under the
  identity \<open>id\<close>, and every later statement that mutates an earlier construct
  (\<open>addToPolicy\<close>, \<open>addResource\<close>, \<open>addMethod\<close>) updates the tree.

  The construct classes themselves (\<open>aws-cdk-lib\<close>, \<open>@cdklabs/generative-ai-cdk-constructs\<close>)
  are libraries outside the repository. A node records the properties the source passes
  to the library, a property the source leaves out is \<open>None\<close>, and nothing a library adds
  on its own account (default policies, preflight methods, custom resources) is part of
  the model.
\<close>

subsection \<open>Strings that may carry references\<close>

text \<open>
  A local constant of the source (\<open>documentBucket\<close>, \<open>knowledgeBase\<close>, ...) holds a
  construct; the model holds its path in the construct tree. An attribute read off a
  construct (\<open>documentBucket.bucketArn\<close>, \<open>knowledgeBase.knowledgeBaseId\<close>) is a generated
  identifier that exists only after provisioning: it is kept as the reference \<open>Attr\<close>.
  A template literal such as \<open>`${documentBucket.bucketArn}/*`\<close> is the concatenation \<open>Cat\<close>.
\<close>

type_synonym handle = "string list"

datatype strval =
    Lit string
  | Attr handle string
  | Cat strval strval

subsection \<open>Construct properties\<close>

datatype RemovalPolicy = DESTROY | RETAIN | SNAPSHOT | RETAIN_ON_UPDATE_OR_DELETE

datatype BlockPublicAccess = BLOCK_ALL | BLOCK_ACLS

datatype BucketEncryption = UNENCRYPTED | KMS_MANAGED | S3_MANAGED | KMS | DSSE_MANAGED | DSSE

record BucketProps =
  removalPolicy :: "RemovalPolicy option"
  autoDeleteObjects :: "bool option"
  versioned :: "bool option"
  blockPublicAccess :: "BlockPublicAccess option"
  encryption :: "BucketEncryption option"

record PolicyStatement =
  actions :: "string list"
  resources :: "strval list"

datatype Principal = ServicePrincipal string

datatype ManagedPolicy = fromAwsManagedPolicyName string

record RoleProps =
  assumedBy :: Principal
  managedPolicies :: "ManagedPolicy list option"

datatype BedrockFoundationModel = TITAN_EMBED_TEXT_V1 | TITAN_EMBED_TEXT_V2_1024 | COHERE_EMBED_ENGLISH_V3

record VectorKnowledgeBaseProps =
  embeddingsModel :: BedrockFoundationModel
  kbName :: string
  kbDescription :: string
  existingRole :: "handle option"

record FixedSizeOptions =
  maxTokens :: int
  overlapPercentage :: int

datatype ChunkingStrategy = fixedSize FixedSizeOptions | DEFAULT_CHUNKING | NO_CHUNKING

record S3DataSourceProps =
  bucket :: handle
  knowledgeBase :: handle
  dataSourceName :: string
  chunkingStrategy :: "ChunkingStrategy option"

datatype Runtime = PYTHON_3_12 | PYTHON_3_13 | NODEJS_22_X

text \<open>\<open>path.join(__dirname, rel)\<close>: the directory of the compiled file and the relative part.\<close>

datatype AssetPath = path_join string string

datatype Code = fromAsset AssetPath

record LayerVersionProps =
  layerCode :: Code
  compatibleRuntimes :: "Runtime list"
  layerDescription :: string

text \<open>\<open>timeout\<close> is \<open>cdk.Duration.seconds n\<close>, kept as the number of seconds.\<close>

record FunctionProps =
  runtime :: Runtime
  handler :: string
  code :: Code
  role :: handle
  timeout :: nat
  memorySize :: nat
  layers :: "handle list option"
  environment :: "(string \<times> strval) list"

datatype Origins = ALL_ORIGINS | Origins "string list"

datatype Methods = ALL_METHODS | Methods "string list"

record CorsOptions =
  allowOrigins :: Origins
  allowMethods :: Methods
  allowHeaders :: "string list option"

record RestApiProps =
  restApiName :: string
  apiDescription :: string
  defaultCorsPreflightOptions :: "CorsOptions option"

datatype Integration = LambdaIntegration handle

record CfnOutputProps =
  outputValue :: strval
  outputDescription :: string

subsection \<open>The construct tree\<close>

text \<open>
  A role carries its construction properties and the statements the source has added
  to its policy so far. A REST resource records its parent (the API, which stands for
  \<open>api.root\<close>, or another resource) and its path part; a method records its resource,
  its HTTP verb and its integration. Only what the source itself declares is recorded:
  the statements and managed policies a library construct attaches to a role it is
  handed, and the preflight \<open>OPTIONS\<close> methods the library creates for
  \<open>defaultCorsPreflightOptions\<close>, are not in the tree.
\<close>

datatype Construct =
    Bucket BucketProps
  | Role RoleProps "PolicyStatement list"
  | VectorKnowledgeBase VectorKnowledgeBaseProps
  | S3DataSource S3DataSourceProps
  | LayerVersion LayerVersionProps
  | Function FunctionProps
  | RestApi RestApiProps
  | Resource handle string
  | Method handle string Integration
  | CfnOutput CfnOutputProps

text \<open>
  The stack: its own identity and region (what \<open>super(scope, id, props)\<close> leaves in
  \<open>this\<close>), and the nodes in the order of their construction. \<open>this.region\<close> is a
  literal when the properties of the stack name a region and a deploy-time token
  otherwise, so it is a value that may carry a reference.
\<close>

record Stack =
  stackId :: string
  region :: strval
  nodes :: "(handle \<times> Construct) list"

text \<open>
  Construction aborts on an identity used twice in one scope, and a mutation of a
  construct needs that construct in the tree.
\<close>

datatype error =
    IdentityCollision handle
  | UnconstructedReference handle

type_synonym 'a build = "Stack \<Rightarrow> error + ('a \<times> Stack)"

definition andThen :: "'a build \<Rightarrow> ('a \<Rightarrow> 'b build) \<Rightarrow> 'b build" where
  "andThen m f = (\<lambda>st. case m st of Inl e \<Rightarrow> Inl e | Inr (x, st') \<Rightarrow> f x st')"

definition this_region :: "strval build" where
  "this_region = (\<lambda>st. Inr (region st, st))"

definition new_construct :: "handle \<Rightarrow> Construct \<Rightarrow> handle build" where
  "new_construct h c =
     (\<lambda>st. case map_of (nodes st) h of
            Some _ \<Rightarrow> Inl (IdentityCollision h)
          | None \<Rightarrow> Inr (h, st\<lparr>nodes := nodes st @ [(h, c)]\<rparr>))"

definition new_Bucket :: "string \<Rightarrow> BucketProps \<Rightarrow> handle build" where
  "new_Bucket i p = new_construct [i] (Bucket p)"

definition new_Role :: "string \<Rightarrow> RoleProps \<Rightarrow> handle build" where
  "new_Role i p = new_construct [i] (Role p [])"

definition new_VectorKnowledgeBase :: "string \<Rightarrow> VectorKnowledgeBaseProps \<Rightarrow> handle build" where
  "new_VectorKnowledgeBase i p = new_construct [i] (VectorKnowledgeBase p)"

definition new_S3DataSource :: "string \<Rightarrow> S3DataSourceProps \<Rightarrow> handle build" where
  "new_S3DataSource i p = new_construct [i] (S3DataSource p)"

definition new_LayerVersion :: "string \<Rightarrow> LayerVersionProps \<Rightarrow> handle build" where
  "new_LayerVersion i p = new_construct [i] (LayerVersion p)"

definition new_Function :: "string \<Rightarrow> FunctionProps \<Rightarrow> handle build" where
  "new_Function i p = new_construct [i] (Function p)"

definition new_RestApi :: "string \<Rightarrow> RestApiProps \<Rightarrow> handle build" where
  "new_RestApi i p = new_construct [i] (RestApi p)"

definition new_CfnOutput :: "string \<Rightarrow> CfnOutputProps \<Rightarrow> handle build" where
  "new_CfnOutput i p = new_construct [i] (CfnOutput p)"

text \<open>\<open>role.addToPolicy(statement)\<close> appends the statement to the role's policy.\<close>

fun add_statement :: "handle \<Rightarrow> PolicyStatement \<Rightarrow> (handle \<times> Construct) list \<Rightarrow> (handle \<times> Construct) list" where
  "add_statement h s [] = []"
| "add_statement h s ((k, Role p ss) # ns) =
     (if k = h then (k, Role p (ss @ [s])) # ns else (k, Role p ss) # add_statement h s ns)"
| "add_statement h s (n # ns) = n # add_statement h s ns"

definition addToPolicy :: "handle \<Rightarrow> PolicyStatement \<Rightarrow> unit build" where
  "addToPolicy h s =
     (\<lambda>st. case map_of (nodes st) h of
            Some (Role _ _) \<Rightarrow> Inr ((), st\<lparr>nodes := add_statement h s (nodes st)\<rparr>)
          | _ \<Rightarrow> Inl (UnconstructedReference h))"

text \<open>\<open>api.root\<close> is addressed by the API's own handle.\<close>

definition root :: "handle \<Rightarrow> handle" where
  "root api = api"

definition addResource :: "handle \<Rightarrow> string \<Rightarrow> handle build" where
  "addResource parent part =
     (\<lambda>st. case map_of (nodes st) parent of
            None \<Rightarrow> Inl (UnconstructedReference parent)
          | Some _ \<Rightarrow> new_construct (parent @ [part]) (Resource parent part) st)"

definition addMethod :: "handle \<Rightarrow> string \<Rightarrow> Integration \<Rightarrow> handle build" where
  "addMethod res verb integration =
     (\<lambda>st. case map_of (nodes st) res of
            None \<Rightarrow> Inl (UnconstructedReference res)
          | Some _ \<Rightarrow> new_construct (res @ [verb]) (Method res verb integration) st)"

text \<open>Attribute reads of the source.\<close>

definition bucketArn :: "handle \<Rightarrow> strval" where
  "bucketArn b = Attr b ''bucketArn''"

definition bucketName :: "handle \<Rightarrow> strval" where
  "bucketName b = Attr b ''bucketName''"

definition knowledgeBaseId :: "handle \<Rightarrow> strval" where
  "knowledgeBaseId k = Attr k ''knowledgeBaseId''"

definition dataSourceId :: "handle \<Rightarrow> strval" where
  "dataSourceId d = Attr d ''dataSourceId''"

definition url :: "handle \<Rightarrow> strval" where
  "url a = Attr a ''url''"

subsection \<open>The constructor\<close>

text \<open>
  \<open>dirname\<close> is \<open>__dirname\<close>, the one value the constructor reads that is neither an
  argument nor a literal; \<open>sid\<close> and \<open>rgn\<close> are the stack identity and the value of
  \<open>this.region\<close> that \<open>super(scope, id, props)\<close> establishes. The statements follow
  the source line by line.
\<close>

definition declarations :: "string \<Rightarrow> handle build" where
  "declarations dirname =
    andThen (new_Bucket ''DocumentBucket''
      \<lparr>removalPolicy = Some DESTROY,
       autoDeleteObjects = Some True,
       versioned = Some True,
       blockPublicAccess = Some BLOCK_ALL,
       encryption = Some S3_MANAGED\<rparr>) (\<lambda>documentBucket.
    andThen (new_Role ''LambdaServiceRole''
      \<lparr>assumedBy = ServicePrincipal ''lambda.amazonaws.com'',
       managedPolicies = Some
         [fromAwsManagedPolicyName ''service-role/AWSLambdaBasicExecutionRole'']\<rparr>) (\<lambda>lambdaServiceRole.
    andThen (addToPolicy lambdaServiceRole
      \<lparr>actions =
         [''bedrock:InvokeModel'',
          ''bedrock:Retrieve'',
          ''bedrock:RetrieveAndGenerate'',
          ''bedrock:ListKnowledgeBases'',
          ''bedrock:GetKnowledgeBase'',
          ''bedrock:UpdateKnowledgeBase'',
          ''bedrock:CreateKnowledgeBase'',
          ''bedrock:DeleteKnowledgeBase'',
          ''bedrock-agent:*'',
          ''bedrock-agent-runtime:*''],
       resources = [Lit ''*'']\<rparr>) (\<lambda>_.
    andThen (addToPolicy lambdaServiceRole
      \<lparr>actions = [''polly:SynthesizeSpeech'', ''polly:DescribeVoices''],
       resources = [Lit ''*'']\<rparr>) (\<lambda>_.
    andThen (addToPolicy lambdaServiceRole
      \<lparr>actions =
         [''transcribe:StartStreamTranscription'',
          ''transcribe:StartStreamTranscriptionWebSocket''],
       resources = [Lit ''*'']\<rparr>) (\<lambda>_.
    andThen (addToPolicy lambdaServiceRole
      \<lparr>actions = [''s3:GetObject'', ''s3:PutObject'', ''s3:ListBucket''],
       resources =
         [bucketArn documentBucket,
          Cat (bucketArn documentBucket) (Lit ''/*'')]\<rparr>) (\<lambda>_.
    andThen (new_Role ''BedrockServiceRole''
      \<lparr>assumedBy = ServicePrincipal ''bedrock.amazonaws.com'',
       managedPolicies = None\<rparr>) (\<lambda>bedrockServiceRole.
    andThen (addToPolicy bedrockServiceRole
      \<lparr>actions = [''s3:GetObject'', ''s3:PutObject'', ''s3:ListBucket''],
       resources =
         [bucketArn documentBucket,
          Cat (bucketArn documentBucket) (Lit ''/*'')]\<rparr>) (\<lambda>_.
    andThen (addToPolicy bedrockServiceRole
      \<lparr>actions = [''bedrock:InvokeModel''],
       resources = [Lit ''*'']\<rparr>) (\<lambda>_.
    andThen (new_VectorKnowledgeBase ''VectorKnowledgeBase''
      \<lparr>embeddingsModel = TITAN_EMBED_TEXT_V1,
       kbName = ''VoiceEnabledKnowledgeBase'',
       kbDescription = ''Vector knowledge base with voice capabilities'',
       existingRole = Some bedrockServiceRole\<rparr>) (\<lambda>knowledgeBase.
    andThen (new_S3DataSource ''S3DataSource''
      \<lparr>bucket = documentBucket,
       knowledgeBase = knowledgeBase,
       dataSourceName = ''DocumentSource'',
       chunkingStrategy = Some (fixedSize
         \<lparr>maxTokens = 500, overlapPercentage = 20\<rparr>)\<rparr>) (\<lambda>s3DataSource.
    andThen (new_LayerVersion ''TranscribeLayer''
      \<lparr>layerCode = fromAsset (path_join dirname ''../lambda/layers/transcribe_streaming.zip''),
       compatibleRuntimes = [PYTHON_3_13],
       layerDescription = ''Layer containing Amazon Transcribe streaming SDK''\<rparr>) (\<lambda>transcribeLayer.
    andThen this_region (\<lambda>region_A.
    andThen (new_Function ''SpeechToTextFunction''
      \<lparr>runtime = PYTHON_3_13,
       handler = ''transcribe_function.lambda_handler'',
       code = fromAsset (path_join dirname ''../lambda/transcribe/src''),
       role = lambdaServiceRole,
       timeout = 30,
       memorySize = 256,
       layers = Some [transcribeLayer],
       environment = [(''REGION'', region_A)]\<rparr>) (\<lambda>speechToTextFunction.
    andThen this_region (\<lambda>region_B.
    andThen (new_Function ''QueryWithVoiceFunction''
      \<lparr>runtime = PYTHON_3_13,
       handler = ''kb_polly_function.lambda_handler'',
       code = fromAsset (path_join dirname ''../lambda/queryKnowledgeBase/src''),
       role = lambdaServiceRole,
       timeout = 30,
       memorySize = 256,
       layers = None,
       environment =
         [(''KNOWLEDGE_BASE_ID'', knowledgeBaseId knowledgeBase),
          (''REGION'', region_B),
          (''DATA_SOURCE_ID'', dataSourceId s3DataSource)]\<rparr>) (\<lambda>queryWithVoiceFunction.
    andThen (new_RestApi ''MultimodalKnowledgeApi''
      \<lparr>restApiName = ''Bedrock Voice Knowledge API'',
       apiDescription =
         ''API for interacting with a Bedrock knowledge base using voice and text'',
       defaultCorsPreflightOptions = Some
         \<lparr>allowOrigins = ALL_ORIGINS,
          allowMethods = ALL_METHODS,
          allowHeaders = Some
            [''Content-Type'', ''X-Amz-Date'', ''Authorization'', ''X-Api-Key'']\<rparr>\<rparr>) (\<lambda>api.
    andThen (addResource (root api) ''knowledge-base'') (\<lambda>knowledgeBaseResource.
    andThen (addResource knowledgeBaseResource ''query'') (\<lambda>queryResource.
    andThen (addMethod queryResource ''POST''
      (LambdaIntegration queryWithVoiceFunction)) (\<lambda>_.
    andThen (addResource (root api) ''transcribe'') (\<lambda>transcribeResource.
    andThen (addMethod transcribeResource ''POST''
      (LambdaIntegration speechToTextFunction)) (\<lambda>_.
    andThen (new_CfnOutput ''ApiUrl''
      \<lparr>outputValue = url api,
       outputDescription = ''URL of the API Gateway''\<rparr>) (\<lambda>_.
    andThen (new_CfnOutput ''KnowledgeBaseId''
      \<lparr>outputValue = knowledgeBaseId knowledgeBase,
       outputDescription = ''ID of the created Bedrock Knowledge Base''\<rparr>) (\<lambda>_.
    andThen (new_CfnOutput ''DataSourceId''
      \<lparr>outputValue = dataSourceId s3DataSource,
       outputDescription = ''ID of the S3 data source''\<rparr>) (\<lambda>_.
    new_CfnOutput ''DocumentBucketName''
      \<lparr>outputValue = bucketName documentBucket,
       outputDescription = ''Name of the S3 bucket for document storage''\<rparr>
    )))))))))))))))))))))))))"

definition BedrockVoiceKnowledgeStack :: "string \<Rightarrow> string \<Rightarrow> strval \<Rightarrow> error + Stack" where
  "BedrockVoiceKnowledgeStack dirname sid rgn =
     (case declarations dirname \<lparr>stackId = sid, region = rgn, nodes = []\<rparr> of
        Inl e \<Rightarrow> Inl e
      | Inr (_, st) \<Rightarrow> Inr st)"


section \<open>Reading the constructed graph\<close>

definition lookup :: "Stack \<Rightarrow> handle \<Rightarrow> Construct option" where
  "lookup g h = map_of (nodes g) h"

text \<open>
  Nodes are appended as they are constructed, so the position of a node in the list is
  the moment of its construction.
\<close>

fun position :: "handle \<Rightarrow> (handle \<times> Construct) list \<Rightarrow> nat option" where
  "position h [] = None"
| "position h ((k, c) # ns) = (if k = h then Some 0 else map_option Suc (position h ns))"

definition constructed_before :: "Stack \<Rightarrow> handle \<Rightarrow> handle \<Rightarrow> bool" where
  "constructed_before g a b =
     (case (position a (nodes g), position b (nodes g)) of
        (Some i, Some j) \<Rightarrow> i < j
      | _ \<Rightarrow> False)"

fun kind :: "Construct \<Rightarrow> string" where
  "kind (Bucket _) = ''Bucket''"
| "kind (Role _ _) = ''Role''"
| "kind (VectorKnowledgeBase _) = ''VectorKnowledgeBase''"
| "kind (S3DataSource _) = ''S3DataSource''"
| "kind (LayerVersion _) = ''LayerVersion''"
| "kind (Function _) = ''Function''"
| "kind (RestApi _) = ''RestApi''"
| "kind (Resource _ _) = ''Resource''"
| "kind (Method _ _ _) = ''Method''"
| "kind (CfnOutput _) = ''CfnOutput''"

subsection \<open>Roles and grants\<close>

fun statements_of :: "handle \<times> Construct \<Rightarrow> (handle \<times> PolicyStatement) list" where
  "statements_of (h, Role p ss) = map (Pair h) ss"
| "statements_of (h, _) = []"

text \<open>
  Every statement the source adds to a role of the graph, with the role that carries it.
\<close>

definition role_grants :: "Stack \<Rightarrow> (handle \<times> PolicyStatement) list" where
  "role_grants g = concat (map statements_of (nodes g))"

text \<open>
  A resource pattern mentions a construct when a reference to one of its attributes
  occurs in it; a statement touches storage when it names an S3 action (or every action,
  \<open>*\<close>) or one of its resource patterns mentions the bucket.
\<close>

fun mentions :: "handle \<Rightarrow> strval \<Rightarrow> bool" where
  "mentions b (Lit s) = False"
| "mentions b (Attr h a) = (h = b)"
| "mentions b (Cat x y) = (mentions b x \<or> mentions b y)"

definition references_storage :: "handle \<Rightarrow> PolicyStatement \<Rightarrow> bool" where
  "references_storage b s = list_ex (mentions b) (resources s)"

definition s3_action :: "string \<Rightarrow> bool" where
  "s3_action a = (a = ''*'' \<or> take 3 a = ''s3:'')"

definition touches_storage :: "handle \<Rightarrow> PolicyStatement \<Rightarrow> bool" where
  "touches_storage b s = (list_ex s3_action (actions s) \<or> references_storage b s)"




subsection \<open>Knowledge base and data source\<close>

definition kb_role :: "Stack \<Rightarrow> handle \<Rightarrow> Construct option" where
  "kb_role g k =
     (case lookup g k of
        Some (VectorKnowledgeBase p) \<Rightarrow>
          (case existingRole p of Some h \<Rightarrow> lookup g h | None \<Rightarrow> None)
      | _ \<Rightarrow> None)"

fun binding_of :: "handle \<Rightarrow> handle \<times> Construct \<Rightarrow> handle option" where
  "binding_of k (h, S3DataSource p) = (if knowledgeBase p = k then Some (bucket p) else None)"
| "binding_of k (h, _) = None"

text \<open>The buckets bound to a knowledge base by the data sources of the graph.\<close>

definition bound_storage :: "Stack \<Rightarrow> handle \<Rightarrow> handle list" where
  "bound_storage g k = List.map_filter (binding_of k) (nodes g)"

definition chunking :: "Stack \<Rightarrow> handle \<Rightarrow> FixedSizeOptions option" where
  "chunking g h =
     (case lookup g h of
        Some (S3DataSource p) \<Rightarrow>
          (case chunkingStrategy p of Some (fixedSize opts) \<Rightarrow> Some opts | _ \<Rightarrow> None)
      | _ \<Rightarrow> None)"

text \<open>The overlap is passed as a percentage; as a fraction it is the percentage over 100.\<close>

definition overlap_fraction :: "FixedSizeOptions \<Rightarrow> rat" where
  "overlap_fraction opts = of_int (overlapPercentage opts) / 100"

definition chunking_valid :: "FixedSizeOptions \<Rightarrow> bool" where
  "chunking_valid opts =
     (0 < maxTokens opts \<and> 0 \<le> overlap_fraction opts \<and> overlap_fraction opts < 1)"

subsection \<open>Storage\<close>

definition public_access_blocked :: "BucketProps \<Rightarrow> bool" where
  "public_access_blocked p = (blockPublicAccess p = Some BLOCK_ALL)"

definition encrypted_at_creation :: "BucketProps \<Rightarrow> bool" where
  "encrypted_at_creation p =
     (case encryption p of None \<Rightarrow> False | Some UNENCRYPTED \<Rightarrow> False | Some _ \<Rightarrow> True)"

definition deletion_policy_declared :: "BucketProps \<Rightarrow> bool" where
  "deletion_policy_declared p = (removalPolicy p \<noteq> None)"

subsection \<open>Handlers and their environment\<close>

definition environment_of :: "Stack \<Rightarrow> handle \<Rightarrow> (string \<times> strval) list option" where
  "environment_of g h =
     (case lookup g h of Some (Function p) \<Rightarrow> Some (environment p) | _ \<Rightarrow> None)"

text \<open>
  A value is resolved when it is plain text throughout. A reference stands for an
  identifier that is generated at provisioning, after the graph is constructed.
\<close>

fun resolved :: "strval \<Rightarrow> bool" where
  "resolved (Lit s) = True"
| "resolved (Attr h a) = False"
| "resolved (Cat x y) = (resolved x \<and> resolved y)"

subsection \<open>Gateway\<close>









definition cors :: "Stack \<Rightarrow> handle \<Rightarrow> CorsOptions option" where
  "cors g api =
     (case lookup g api of Some (RestApi p) \<Rightarrow> defaultCorsPreflightOptions p | _ \<Rightarrow> None)"



section \<open>The graph the constructor builds\<close>

lemmas build_defs =
  BedrockVoiceKnowledgeStack_def declarations_def andThen_def this_region_def
  new_construct_def new_Bucket_def new_Role_def new_VectorKnowledgeBase_def
  new_S3DataSource_def new_LayerVersion_def new_Function_def new_RestApi_def
  new_CfnOutput_def addToPolicy_def root_def addResource_def addMethod_def
  bucketArn_def bucketName_def knowledgeBaseId_def dataSourceId_def url_def

text \<open>
  Running the constructor never aborts: the identities are pairwise distinct and every
  mutated construct exists. The result is the following tree, for every directory,
  stack identity and region.
\<close>

lemma constructed_graph:
  "BedrockVoiceKnowledgeStack d sid r = Inr
     \<lparr>stackId = sid, region = r,
      nodes =
       [([''DocumentBucket''],
         Bucket
          \<lparr>removalPolicy = Some DESTROY,
           autoDeleteObjects = Some True,
           versioned = Some True,
           blockPublicAccess = Some BLOCK_ALL,
           encryption = Some S3_MANAGED\<rparr>),
        ([''LambdaServiceRole''],
         Role
          \<lparr>assumedBy = ServicePrincipal ''lambda.amazonaws.com'',
           managedPolicies = Some
             [fromAwsManagedPolicyName ''service-role/AWSLambdaBasicExecutionRole'']\<rparr>
          [\<lparr>actions =
              [''bedrock:InvokeModel'',
               ''bedrock:Retrieve'',
               ''bedrock:RetrieveAndGenerate'',
               ''bedrock:ListKnowledgeBases'',
               ''bedrock:GetKnowledgeBase'',
               ''bedrock:UpdateKnowledgeBase'',
               ''bedrock:CreateKnowledgeBase'',
               ''bedrock:DeleteKnowledgeBase'',
               ''bedrock-agent:*'',
               ''bedrock-agent-runtime:*''],
            resources = [Lit ''*'']\<rparr>,
           \<lparr>actions = [''polly:SynthesizeSpeech'', ''polly:DescribeVoices''],
            resources = [Lit ''*'']\<rparr>,
           \<lparr>actions =
              [''transcribe:StartStreamTranscription'',
               ''transcribe:StartStreamTranscriptionWebSocket''],
            resources = [Lit ''*'']\<rparr>,
           \<lparr>actions = [''s3:GetObject'', ''s3:PutObject'', ''s3:ListBucket''],
            resources =
              [Attr [''DocumentBucket''] ''bucketArn'',
               Cat (Attr [''DocumentBucket''] ''bucketArn'') (Lit ''/*'')]\<rparr>]),
        ([''BedrockServiceRole''],
         Role
          \<lparr>assumedBy = ServicePrincipal ''bedrock.amazonaws.com'',
           managedPolicies = None\<rparr>
          [\<lparr>actions = [''s3:GetObject'', ''s3:PutObject'', ''s3:ListBucket''],
            resources =
              [Attr [''DocumentBucket''] ''bucketArn'',
               Cat (Attr [''DocumentBucket''] ''bucketArn'') (Lit ''/*'')]\<rparr>,
           \<lparr>actions = [''bedrock:InvokeModel''],
            resources = [Lit ''*'']\<rparr>]),
        ([''VectorKnowledgeBase''],
         VectorKnowledgeBase
          \<lparr>embeddingsModel = TITAN_EMBED_TEXT_V1,
           kbName = ''VoiceEnabledKnowledgeBase'',
           kbDescription = ''Vector knowledge base with voice capabilities'',
           existingRole = Some [''BedrockServiceRole'']\<rparr>),
        ([''S3DataSource''],
         S3DataSource
          \<lparr>bucket = [''DocumentBucket''],
           knowledgeBase = [''VectorKnowledgeBase''],
           dataSourceName = ''DocumentSource'',
           chunkingStrategy = Some (fixedSize
             \<lparr>maxTokens = 500, overlapPercentage = 20\<rparr>)\<rparr>),
        ([''TranscribeLayer''],
         LayerVersion
          \<lparr>layerCode = fromAsset (path_join d ''../lambda/layers/transcribe_streaming.zip''),
           compatibleRuntimes = [PYTHON_3_13],
           layerDescription = ''Layer containing Amazon Transcribe streaming SDK''\<rparr>),
        ([''SpeechToTextFunction''],
         Function
          \<lparr>runtime = PYTHON_3_13,
           handler = ''transcribe_function.lambda_handler'',
           code = fromAsset (path_join d ''../lambda/transcribe/src''),
           role = [''LambdaServiceRole''],
           timeout = 30,
           memorySize = 256,
           layers = Some [[''TranscribeLayer'']],
           environment = [(''REGION'', r)]\<rparr>),
        ([''QueryWithVoiceFunction''],
         Function
          \<lparr>runtime = PYTHON_3_13,
           handler = ''kb_polly_function.lambda_handler'',
           code = fromAsset (path_join d ''../lambda/queryKnowledgeBase/src''),
           role = [''LambdaServiceRole''],
           timeout = 30,
           memorySize = 256,
           layers = None,
           environment =
             [(''KNOWLEDGE_BASE_ID'', Attr [''VectorKnowledgeBase''] ''knowledgeBaseId''),
              (''REGION'', r),
              (''DATA_SOURCE_ID'', Attr [''S3DataSource''] ''dataSourceId'')]\<rparr>),
        ([''MultimodalKnowledgeApi''],
         RestApi
          \<lparr>restApiName = ''Bedrock Voice Knowledge API'',
           apiDescription =
             ''API for interacting with a Bedrock knowledge base using voice and text'',
           defaultCorsPreflightOptions = Some
             \<lparr>allowOrigins = ALL_ORIGINS,
              allowMethods = ALL_METHODS,
              allowHeaders = Some
                [''Content-Type'', ''X-Amz-Date'', ''Authorization'', ''X-Api-Key'']\<rparr>\<rparr>),
        ([''MultimodalKnowledgeApi'', ''knowledge-base''],
         Resource [''MultimodalKnowledgeApi''] ''knowledge-base''),
        ([''MultimodalKnowledgeApi'', ''knowledge-base'', ''query''],
         Resource [''MultimodalKnowledgeApi'', ''knowledge-base''] ''query''),
        ([''MultimodalKnowledgeApi'', ''knowledge-base'', ''query'', ''POST''],
         Method [''MultimodalKnowledgeApi'', ''knowledge-base'', ''query''] ''POST''
           (LambdaIntegration [''QueryWithVoiceFunction''])),
        ([''MultimodalKnowledgeApi'', ''transcribe''],
         Resource [''MultimodalKnowledgeApi''] ''transcribe''),
        ([''MultimodalKnowledgeApi'', ''transcribe'', ''POST''],
         Method [''MultimodalKnowledgeApi'', ''transcribe''] ''POST''
           (LambdaIntegration [''SpeechToTextFunction''])),
        ([''ApiUrl''],
         CfnOutput
          \<lparr>outputValue = Attr [''MultimodalKnowledgeApi''] ''url'',
           outputDescription = ''URL of the API Gateway''\<rparr>),
        ([''KnowledgeBaseId''],
         CfnOutput
          \<lparr>outputValue = Attr [''VectorKnowledgeBase''] ''knowledgeBaseId'',
           outputDescription = ''ID of the created Bedrock Knowledge Base''\<rparr>),
        ([''DataSourceId''],
         CfnOutput
          \<lparr>outputValue = Attr [''S3DataSource''] ''dataSourceId'',
           outputDescription = ''ID of the S3 data source''\<rparr>),
        ([''DocumentBucketName''],
         CfnOutput
          \<lparr>outputValue = Attr [''DocumentBucket''] ''bucketName'',
           outputDescription = ''Name of the S3 bucket for document storage''\<rparr>)]\<rparr>"
  by (simp add: build_defs)

lemma role_grants_constructed:
  assumes "BedrockVoiceKnowledgeStack d sid r = Inr g"
  shows "role_grants g =
     [([''LambdaServiceRole''],
       \<lparr>actions =
          [''bedrock:InvokeModel'',
           ''bedrock:Retrieve'',
           ''bedrock:RetrieveAndGenerate'',
           ''bedrock:ListKnowledgeBases'',
           ''bedrock:GetKnowledgeBase'',
           ''bedrock:UpdateKnowledgeBase'',
           ''bedrock:CreateKnowledgeBase'',
           ''bedrock:DeleteKnowledgeBase'',
           ''bedrock-agent:*'',
           ''bedrock-agent-runtime:*''],
        resources = [Lit ''*'']\<rparr>),
      ([''LambdaServiceRole''],
       \<lparr>actions = [''polly:SynthesizeSpeech'', ''polly:DescribeVoices''],
        resources = [Lit ''*'']\<rparr>),
      ([''LambdaServiceRole''],
       \<lparr>actions =
          [''transcribe:StartStreamTranscription'',
           ''transcribe:StartStreamTranscriptionWebSocket''],
        resources = [Lit ''*'']\<rparr>),
      ([''LambdaServiceRole''],
       \<lparr>actions = [''s3:GetObject'', ''s3:PutObject'', ''s3:ListBucket''],
        resources =
          [Attr [''DocumentBucket''] ''bucketArn'',
           Cat (Attr [''DocumentBucket''] ''bucketArn'') (Lit ''/*'')]\<rparr>),
      ([''BedrockServiceRole''],
       \<lparr>actions = [''s3:GetObject'', ''s3:PutObject'', ''s3:ListBucket''],
        resources =
          [Attr [''DocumentBucket''] ''bucketArn'',
           Cat (Attr [''DocumentBucket''] ''bucketArn'') (Lit ''/*'')]\<rparr>),
      ([''BedrockServiceRole''],
       \<lparr>actions = [''bedrock:InvokeModel''],
        resources = [Lit ''*'']\<rparr>)]"
  using assms by (auto simp: constructed_graph role_grants_def)

lemma bucket_is_DocumentBucket:
  assumes "BedrockVoiceKnowledgeStack d sid r = Inr g"
    and "lookup g b = Some (Bucket p)"
  shows "b = [''DocumentBucket'']"
  using assms by (auto simp: constructed_graph lookup_def dest!: map_of_SomeD)

section \<open>The claims\<close>

subsection \<open>C1: grants on storage name the bucket and its objects, never a wildcard\<close>

text \<open>
  Claim C1. In the constructed graph, every policy statement of either role that touches
  the storage bucket (it names an S3 action or every action, or one of its resource
  patterns refers to the bucket) has as its resource set exactly the two patterns \<open>bucketArn\<close> and
  \<open>bucketArn/*\<close>, and does not contain the bare wildcard \<open>*\<close>.
\<close>

theorem storage_grants_scoped_to_bucket:
  assumes "BedrockVoiceKnowledgeStack d sid r = Inr g"
    and "lookup g b = Some (Bucket p)"
    and "(h, s) \<in> set (role_grants g)"
    and "touches_storage b s"
  shows "set (resources s) = {bucketArn b, Cat (bucketArn b) (Lit ''/*'')}
    \<and> Lit ''*'' \<notin> set (resources s)"
proof -
  have b: "b = [''DocumentBucket'']"
    using assms(1,2) by (rule bucket_is_DocumentBucket)
  from assms(3) have "(h, s) \<in> set (role_grants g)" .
  with assms(4) show ?thesis
    unfolding role_grants_constructed [OF assms(1)] b
    by (auto simp: touches_storage_def references_storage_def s3_action_def bucketArn_def)
qed

text \<open>
  The hypotheses of C1 are met by the S3 statement of the knowledge-base role.
\<close>

theorem storage_grants_scoped_to_bucket_witness:
  "\<exists>g p s.
     BedrockVoiceKnowledgeStack ''/srv/app/lib'' ''VoiceStack'' (Lit ''eu-west-1'') = Inr g
     \<and> lookup g [''DocumentBucket''] = Some (Bucket p)
     \<and> ([''BedrockServiceRole''], s) \<in> set (role_grants g)
     \<and> touches_storage [''DocumentBucket''] s
     \<and> set (resources s) =
         {bucketArn [''DocumentBucket''], Cat (bucketArn [''DocumentBucket'']) (Lit ''/*'')}
     \<and> Lit ''*'' \<notin> set (resources s)"
proof -
  let ?s = "\<lparr>actions = [''s3:GetObject'', ''s3:PutObject'', ''s3:ListBucket''],
             resources =
               [Attr [''DocumentBucket''] ''bucketArn'',
                Cat (Attr [''DocumentBucket''] ''bucketArn'') (Lit ''/*'')]\<rparr>"
  obtain g where g: "BedrockVoiceKnowledgeStack ''/srv/app/lib'' ''VoiceStack'' (Lit ''eu-west-1'') = Inr g"
    using constructed_graph by blast
  have 1: "\<exists>p. lookup g [''DocumentBucket''] = Some (Bucket p)"
    using g by (auto simp: constructed_graph lookup_def)
  then obtain p where p: "lookup g [''DocumentBucket''] = Some (Bucket p)" ..
  have 2: "([''BedrockServiceRole''], ?s) \<in> set (role_grants g)"
    by (simp add: role_grants_constructed [OF g])
  have 3: "touches_storage [''DocumentBucket''] ?s"
    by (simp add: touches_storage_def s3_action_def)
  from storage_grants_scoped_to_bucket [OF g p 2 3] g p 2 3 show ?thesis
    by blast
qed

subsection \<open>C2: the grants of the roles\<close>



subsection \<open>C3: the routes of the gateway\<close>



subsection \<open>C4: the environment of the two handlers\<close>

text \<open>
  Claim C4 as stated says that, once the graph is constructed, the knowledge-base and
  data-source values in the environment of \<open>QueryWithVoiceFunction\<close> are resolved
  identifiers and never placeholders. The value the source stores under
  \<open>KNOWLEDGE_BASE_ID\<close> is \<open>knowledgeBase.knowledgeBaseId\<close>, a reference to an identifier
  that does not exist before provisioning: in the constructed graph it is not resolved.
\<close>

theorem knowledge_base_id_not_resolved:
  "\<not> (\<forall>g env v.
        BedrockVoiceKnowledgeStack ''/srv/app/lib'' ''VoiceStack'' (Lit ''eu-west-1'') = Inr g
        \<longrightarrow> environment_of g [''QueryWithVoiceFunction''] = Some env
        \<longrightarrow> map_of env ''KNOWLEDGE_BASE_ID'' = Some v
        \<longrightarrow> resolved v)"
proof
  assume all: "\<forall>g env v.
        BedrockVoiceKnowledgeStack ''/srv/app/lib'' ''VoiceStack'' (Lit ''eu-west-1'') = Inr g
        \<longrightarrow> environment_of g [''QueryWithVoiceFunction''] = Some env
        \<longrightarrow> map_of env ''KNOWLEDGE_BASE_ID'' = Some v
        \<longrightarrow> resolved v"
  have "\<exists>g env v.
      BedrockVoiceKnowledgeStack ''/srv/app/lib'' ''VoiceStack'' (Lit ''eu-west-1'') = Inr g
      \<and> environment_of g [''QueryWithVoiceFunction''] = Some env
      \<and> map_of env ''KNOWLEDGE_BASE_ID'' = Some v
      \<and> \<not> resolved v"
    by (simp add: constructed_graph environment_of_def lookup_def)
  then obtain g env v where
    "BedrockVoiceKnowledgeStack ''/srv/app/lib'' ''VoiceStack'' (Lit ''eu-west-1'') = Inr g"
    and "environment_of g [''QueryWithVoiceFunction''] = Some env"
    and "map_of env ''KNOWLEDGE_BASE_ID'' = Some v"
    and "\<not> resolved v"
    by blast
  with all show False
    by blast
qed

text \<open>
  Claim C4, amended. The environment of \<open>SpeechToTextFunction\<close> is the single entry
  \<open>REGION\<close>, holding \<open>this.region\<close>. The environment of \<open>QueryWithVoiceFunction\<close> is
  exactly \<open>KNOWLEDGE_BASE_ID\<close>, \<open>REGION\<close> (again \<open>this.region\<close>) and \<open>DATA_SOURCE_ID\<close>, in
  that order. After construction the knowledge-base and data-source values are
  references, not resolved identifiers: to the \<open>knowledgeBaseId\<close> of the knowledge base
  and to the \<open>dataSourceId\<close> of the data source, both of them nodes of the graph and
  constructed before the function.
\<close>

theorem handler_environment_references:
  "\<exists>g.
     BedrockVoiceKnowledgeStack d sid r = Inr g
     \<and> environment_of g [''SpeechToTextFunction''] = Some [(''REGION'', r)]
     \<and> environment_of g [''QueryWithVoiceFunction''] = Some
         [(''KNOWLEDGE_BASE_ID'', knowledgeBaseId [''VectorKnowledgeBase'']),
          (''REGION'', r),
          (''DATA_SOURCE_ID'', dataSourceId [''S3DataSource''])]
     \<and> \<not> resolved (knowledgeBaseId [''VectorKnowledgeBase''])
     \<and> \<not> resolved (dataSourceId [''S3DataSource''])
     \<and> map_option kind (lookup g [''VectorKnowledgeBase'']) = Some ''VectorKnowledgeBase''
     \<and> map_option kind (lookup g [''S3DataSource'']) = Some ''S3DataSource''
     \<and> constructed_before g [''VectorKnowledgeBase''] [''QueryWithVoiceFunction'']
     \<and> constructed_before g [''S3DataSource''] [''QueryWithVoiceFunction'']"
  by (simp add: constructed_graph environment_of_def lookup_def constructed_before_def
      knowledgeBaseId_def dataSourceId_def)

subsection \<open>C5: the role of the knowledge base\<close>

text \<open>
  Claim C5. The knowledge base is constructed with an existing role, the role assumed by
  the service principal \<open>bedrock.amazonaws.com\<close>. That role's statements are the read,
  write and list actions of S3 on exactly the two patterns \<open>bucketArn\<close> and
  \<open>bucketArn/*\<close> of the document bucket, and \<open>bedrock:InvokeModel\<close>. The bucket named
  in the grant is the one bucket the data source binds to the knowledge base.
\<close>

theorem knowledge_base_role:
  "\<exists>g.
     BedrockVoiceKnowledgeStack d sid r = Inr g
     \<and> kb_role g [''VectorKnowledgeBase''] = Some
         (Role
           \<lparr>assumedBy = ServicePrincipal ''bedrock.amazonaws.com'',
            managedPolicies = None\<rparr>
           [\<lparr>actions = [''s3:GetObject'', ''s3:PutObject'', ''s3:ListBucket''],
             resources =
               [bucketArn [''DocumentBucket''],
                Cat (bucketArn [''DocumentBucket'']) (Lit ''/*'')]\<rparr>,
            \<lparr>actions = [''bedrock:InvokeModel''],
             resources = [Lit ''*'']\<rparr>])
     \<and> bound_storage g [''VectorKnowledgeBase''] = [[''DocumentBucket'']]
     \<and> map_option kind (lookup g [''DocumentBucket'']) = Some ''Bucket''"
  by (simp add: constructed_graph kb_role_def bound_storage_def lookup_def bucketArn_def
      List.map_filter_simps)

subsection \<open>C6: the storage bucket\<close>

text \<open>
  Claim C6. The document bucket is constructed with all public access blocked, with
  encryption (S3-managed) set at construction, with versioning on, and with a removal
  policy written out in the source rather than left to the default.
\<close>

theorem storage_resource_protected:
  "\<exists>g p.
     BedrockVoiceKnowledgeStack d sid r = Inr g
     \<and> lookup g [''DocumentBucket''] = Some (Bucket p)
     \<and> public_access_blocked p
     \<and> encrypted_at_creation p
     \<and> encryption p = Some S3_MANAGED
     \<and> versioned p = Some True
     \<and> deletion_policy_declared p"
  by (simp add: constructed_graph lookup_def public_access_blocked_def
      encrypted_at_creation_def deletion_policy_declared_def)

subsection \<open>C7: chunking parameters\<close>

text \<open>
  Claim C7. The data source is constructed (the constructor does not abort) with
  fixed-size chunking of at most 500 tokens and an overlap of 20 percent, that is the
  fraction one fifth; these satisfy \<open>0 < maxTokens\<close> and \<open>0 \<le> overlap < 1\<close>.
\<close>

theorem data_source_chunking_accepted:
  "\<exists>g opts.
     BedrockVoiceKnowledgeStack d sid r = Inr g
     \<and> chunking g [''S3DataSource''] = Some opts
     \<and> maxTokens opts = 500
     \<and> overlapPercentage opts = 20
     \<and> overlap_fraction opts = 1 / 5
     \<and> chunking_valid opts"
  by (simp add: constructed_graph chunking_def lookup_def overlap_fraction_def
      chunking_valid_def)

subsection \<open>C8: CORS\<close>

text \<open>
  Claim C8. The default preflight options of the REST API, set at the API itself, allow
  all origins and all methods, and the allowed headers are exactly \<open>Content-Type\<close>,
  \<open>X-Amz-Date\<close>, \<open>Authorization\<close> and \<open>X-Api-Key\<close>.
\<close>

theorem gateway_cors_policy:
  "\<exists>g.
     BedrockVoiceKnowledgeStack d sid r = Inr g
     \<and> map_option kind (lookup g (root [''MultimodalKnowledgeApi''])) = Some ''RestApi''
     \<and> cors g [''MultimodalKnowledgeApi''] = Some
         \<lparr>allowOrigins = ALL_ORIGINS,
          allowMethods = ALL_METHODS,
          allowHeaders = Some
            [''Content-Type'', ''X-Amz-Date'', ''Authorization'', ''X-Api-Key'']\<rparr>"
  by (simp add: constructed_graph cors_def lookup_def root_def)

subsection \<open>C10: the removal policy of the bucket\<close>

text \<open>
  Claim C10. Whatever the arguments of the constructor, the document bucket is
  constructed with removal policy \<open>DESTROY\<close> and with \<open>autoDeleteObjects\<close> set: no
  argument of the constructor selects \<open>RETAIN\<close>.
\<close>

theorem storage_deleted_with_stack:
  "\<exists>g p.
     BedrockVoiceKnowledgeStack d sid r = Inr g
     \<and> lookup g [''DocumentBucket''] = Some (Bucket p)
     \<and> removalPolicy p = Some DESTROY
     \<and> autoDeleteObjects p = Some True"
  by (simp add: constructed_graph lookup_def)

end
